theory Spec2Isabelle
  imports Main "HOL-Library.Word" "HOL-Library.AList"
begin

section \<open>Python values shared by both modules\<close>

text \<open>
  Exceptions are values. \<open>socket_timeout\<close> is Python's \<^verbatim>\<open>socket.timeout\<close>, \<open>OSError\<close>
  any other socket fault, \<open>struct_error\<close> what \<^verbatim>\<open>struct.pack\<close> and \<^verbatim>\<open>struct.unpack\<close>
  raise, \<open>DNSError\<close> what the codec raises on bytes it cannot decode.
\<close>

datatype exn =
    socket_timeout
  | OSError string
  | struct_error string
  | DNSError string
  | KeyError string

type_synonym byte = "8 word"

text \<open>Python's \<^verbatim>\<open>str(k)\<close> for an integer: decimal digits, a leading minus sign.\<close>

fun str_nat :: "nat \<Rightarrow> string" where
  "str_nat n =
     (if n < 10 then [''0123456789'' ! n]
      else str_nat (n div 10) @ [''0123456789'' ! (n mod 10)])"

definition str_int :: "int \<Rightarrow> string" where
  "str_int i = (if i < 0 then CHR ''-'' # str_nat (nat (- i)) else str_nat (nat i))"

text \<open>
  \<^verbatim>\<open>struct.pack("!H", n)\<close>: two bytes, most significant first; \<^verbatim>\<open>struct.error\<close> when
  \<open>n\<close> does not fit 16 bits. \<^verbatim>\<open>struct.unpack("!H", b)[0]\<close>: \<^verbatim>\<open>struct.error\<close> unless
  \<open>b\<close> holds exactly two bytes.
\<close>

definition struct_pack_H :: "int \<Rightarrow> exn + byte list" where
  "struct_pack_H n =
     (if 0 \<le> n \<and> n \<le> 65535 then Inr [word_of_int (n div 256), word_of_int (n mod 256)]
      else Inl (struct_error ''ushort format requires 0 <= number <= 65535''))"

definition struct_unpack_H :: "byte list \<Rightarrow> exn + nat" where
  "struct_unpack_H b =
     (case b of
        [hi, lo] \<Rightarrow> Inr (256 * unat hi + unat lo)
      | _ \<Rightarrow> Inl (struct_error ''unpack requires a buffer of 2 bytes''))"

section \<open>bimap.py: the bidirectional code/text table\<close>

text \<open>
  A Python dict is an association list with distinct keys, in insertion order.
  Storing under a key that is present replaces the value in place, storing under a
  new key appends: \<^const>\<open>AList.update\<close>.
\<close>

record Bimap =
  name :: string
  error :: "string \<Rightarrow> exn"
  forward :: "(int \<times> string) list"
  reverse :: "(string \<times> int) list"

text \<open>
  \<^verbatim>\<open>__init__\<close>: \<^verbatim>\<open>self.forward = forward.copy()\<close> and
  \<^verbatim>\<open>self.reverse = {v: k for k, v in forward.items()}\<close>, the comprehension storing
  one item after the other.
\<close>

definition Bimap_init :: "string \<Rightarrow> (int \<times> string) list \<Rightarrow> (string \<Rightarrow> exn) \<Rightarrow> Bimap" where
  "Bimap_init nm fwd err =
     \<lparr>name = nm, error = err, forward = fwd,
      reverse = fold (\<lambda>(k, v) r. AList.update v k r) fwd []\<rparr>"

text \<open>\<^verbatim>\<open>get\<close>: \<^verbatim>\<open>self.forward.get(k, default or str(k))\<close>; an empty default is falsy.\<close>

definition Bimap_get :: "Bimap \<Rightarrow> int \<Rightarrow> string option \<Rightarrow> string" where
  "Bimap_get self k dflt =
     (case map_of (forward self) k of
        Some v \<Rightarrow> v
      | None \<Rightarrow> (case dflt of
                   None \<Rightarrow> str_int k
                 | Some d \<Rightarrow> if d = [] then str_int k else d))"

text \<open>\<^verbatim>\<open>__getitem__\<close>: the forward lookup; a missing key raises \<^verbatim>\<open>self.error\<close>.\<close>

definition Bimap_getitem :: "Bimap \<Rightarrow> int \<Rightarrow> exn + string" where
  "Bimap_getitem self k =
     (case map_of (forward self) k of
        Some v \<Rightarrow> Inr v
      | None \<Rightarrow> Inl (error self (name self @ '': Invalid forward lookup: ['' @ str_int k @ '']'')))"

text \<open>\<^verbatim>\<open>__getattr__\<close>: the reverse lookup; a missing text raises \<^verbatim>\<open>self.error\<close>.\<close>

definition Bimap_getattr :: "Bimap \<Rightarrow> string \<Rightarrow> exn + int" where
  "Bimap_getattr self k =
     (case map_of (reverse self) k of
        Some c \<Rightarrow> Inr c
      | None \<Rightarrow> Inl (error self (name self @ '': Invalid reverse lookup: ['' @ k @ '']'')))"

text \<open>Running one fallible call on the result of another: an exception passes through.\<close>

definition and_then :: "exn + 'a \<Rightarrow> ('a \<Rightarrow> exn + 'b) \<Rightarrow> exn + 'b" where
  "and_then r f = (case r of Inl e \<Rightarrow> Inl e | Inr x \<Rightarrow> f x)"

section \<open>proxy.py: what the module takes from the rest of the package\<close>

text \<open>
  Modelled from the spec: the codec's \<^verbatim>\<open>DNSRecord\<close> and its header (\<^verbatim>\<open>dnslib/dns.py\<close> is
  not under \<^verbatim>\<open>src/\<close>). The spec's Message is opaque but for its "16-bit transaction
  identifier" and its "settable response-code field"; a reply keeps the request's
  "query section" and may hold "answer records". The record below holds these four:
  the id, the response code, and the question and answer sections as undecoded bytes.
\<close>

record DNSHeader =
  hdr_id :: "16 word"
  rcode :: int

record DNSRecord =
  header :: DNSHeader
  q :: "byte list"
  rr :: "byte list list"

text \<open>
  Modelled from the spec: \<^verbatim>\<open>DNSRecord.reply\<close> (\<^verbatim>\<open>dnslib/dns.py\<close> is missing). "Build a
  reply from \<^verbatim>\<open>request\<close> (preserving its id and query section)"; the synthesized
  reply has "no answer records". The response code starts at 0 (no error). It is
  what the parameter \<open>reply_of\<close> of \<open>resolve\<close> stands for.
\<close>

definition DNSRecord_reply :: "DNSRecord \<Rightarrow> DNSRecord" where
  "DNSRecord_reply request =
     \<lparr>header = \<lparr>hdr_id = hdr_id (header request), rcode = 0\<rparr>, q = q request, rr = []\<rparr>"

text \<open>
  \<^verbatim>\<open>DNSRecord.parse\<close> is a parameter \<open>parse\<close>, \<open>None\<close> on bytes that do not decode;
  the call raises \<^verbatim>\<open>DNSError\<close> then. \<^verbatim>\<open>str(record)\<close> is a parameter \<open>str_of\<close>.
\<close>

definition DNSRecord_parse :: "(byte list \<Rightarrow> DNSRecord option) \<Rightarrow> byte list \<Rightarrow> exn + DNSRecord" where
  "DNSRecord_parse parse packet =
     (case parse packet of
        None \<Rightarrow> Inl (DNSError ''Error unpacking DNSRecord'')
      | Some r \<Rightarrow> Inr r)"

record 't ProxyResolver =
  address :: string
  port :: int
  timeout :: 't

record 't CustomDNSServer =
  resolver :: "'t ProxyResolver"

record 't DNSHandler =
  protocol :: string
  server :: "'t CustomDNSServer"

section \<open>proxy.py: ProxyResolver.resolve\<close>

text \<open>
  \<^verbatim>\<open>request.send(address, port, tcp, timeout)\<close> is a parameter \<open>send\<close>: the bytes the
  upstream answered, or the exception the round trip raised. \<^verbatim>\<open>request.reply()\<close> is a
  parameter \<open>reply_of\<close>. \<^verbatim>\<open>RCODE\<close> is a parameter too, a \<^typ>\<open>Bimap\<close>;
  \<^verbatim>\<open>getattr(RCODE, 'NXDOMAIN')\<close> is its reverse lookup.

  The \<^verbatim>\<open>try\<close> block holds the send and the parse; \<^verbatim>\<open>except socket.timeout\<close> catches
  that exception alone, every other one leaves \<open>resolve\<close>.
\<close>

definition resolve ::
  "Bimap \<Rightarrow> (DNSRecord \<Rightarrow> string \<Rightarrow> int \<Rightarrow> bool \<Rightarrow> 't \<Rightarrow> exn + byte list)
     \<Rightarrow> (byte list \<Rightarrow> DNSRecord option) \<Rightarrow> (DNSRecord \<Rightarrow> DNSRecord)
     \<Rightarrow> 't ProxyResolver \<Rightarrow> DNSRecord \<Rightarrow> 't DNSHandler \<Rightarrow> exn + DNSRecord" where
  "resolve RCODE send parse reply_of self request handler =
     (case and_then
             (if protocol handler = ''udp''
              then send request (address self) (port self) False (timeout self)
              else send request (address self) (port self) True (timeout self))
             (DNSRecord_parse parse) of
        Inr reply \<Rightarrow> Inr reply
      | Inl e \<Rightarrow>
          if e = socket_timeout
          then and_then (Bimap_getattr RCODE ''NXDOMAIN'')
                 (\<lambda>code. Inr ((reply_of request)
                                 \<lparr>header := (header (reply_of request))\<lparr>rcode := code\<rparr>\<rparr>))
          else Inl e)"

section \<open>proxy.py: sockets\<close>

text \<open>
  What the other end of a socket does is a script. \<open>refuses\<close> is the exception
  \<^verbatim>\<open>connect\<close> raises, \<open>rejects\<close> the one \<^verbatim>\<open>sendall\<close> or \<^verbatim>\<open>sendto\<close> raises, \<open>replies\<close>
  what the successive receive calls find: bytes, or an exception. Once the script is
  used up the peer has either closed the connection (\<^verbatim>\<open>recv\<close> returns \<^verbatim>\<open>b''\<close> from
  then on; for a datagram socket, an empty datagram) or stays silent.

  A socket made by \<^verbatim>\<open>socket.socket(...)\<close> has no timeout (\<^verbatim>\<open>gettimeout()\<close> is \<^verbatim>\<open>None\<close>):
  a receive call on a silent peer blocks for ever, which is the result \<open>None\<close>.
  It raises \<^verbatim>\<open>socket.timeout\<close> only on a socket whose timeout was set.
\<close>

datatype recv_ev = Data "byte list" | Raises exn

datatype quiet = Closed | Silent

record endpoint =
  refuses :: "exn option"
  rejects :: "exn option"
  replies :: "recv_ev list"
  ending :: quiet

record socket = endpoint +
  gettimeout :: "nat option"

definition socket_new :: "endpoint \<Rightarrow> socket" where
  "socket_new ep =
     \<lparr>refuses = refuses ep, rejects = rejects ep, replies = replies ep, ending = ending ep,
      gettimeout = None\<rparr>"

definition connect :: "socket \<Rightarrow> exn + socket" where
  "connect sock = (case refuses sock of Some e \<Rightarrow> Inl e | None \<Rightarrow> Inr sock)"

definition sendall :: "socket \<Rightarrow> byte list \<Rightarrow> exn + socket" where
  "sendall sock data = (case rejects sock of Some e \<Rightarrow> Inl e | None \<Rightarrow> Inr sock)"

definition sendto :: "socket \<Rightarrow> byte list \<Rightarrow> exn + socket" where
  "sendto sock data = (case rejects sock of Some e \<Rightarrow> Inl e | None \<Rightarrow> Inr sock)"

text \<open>A receive call that finds nothing: end of stream, a timeout, or no return.\<close>

definition starved :: "socket \<Rightarrow> (exn + byte list \<times> socket) option" where
  "starved sock =
     (case ending sock of
        Closed \<Rightarrow> Some (Inr ([], sock))
      | Silent \<Rightarrow> (case gettimeout sock of None \<Rightarrow> None | Some t \<Rightarrow> Some (Inl socket_timeout)))"

text \<open>\<^verbatim>\<open>recv(bufsize)\<close> on a stream: at most \<open>bufsize\<close> bytes, the rest stays queued.\<close>

definition recv :: "socket \<Rightarrow> nat \<Rightarrow> (exn + byte list \<times> socket) option" where
  "recv sock bufsize =
     (case replies sock of
        [] \<Rightarrow> starved sock
      | Raises e # rest \<Rightarrow> Some (Inl e)
      | Data bs # rest \<Rightarrow>
          if length bs \<le> bufsize then Some (Inr (bs, sock\<lparr>replies := rest\<rparr>))
          else Some (Inr (take bufsize bs, sock\<lparr>replies := Data (drop bufsize bs) # rest\<rparr>)))"

text \<open>\<^verbatim>\<open>recvfrom(bufsize)\<close> on datagrams: one datagram, cut at \<open>bufsize\<close> bytes.\<close>

definition recvfrom :: "socket \<Rightarrow> nat \<Rightarrow> (exn + byte list \<times> socket) option" where
  "recvfrom sock bufsize =
     (case replies sock of
        [] \<Rightarrow> starved sock
      | Raises e # rest \<Rightarrow> Some (Inl e)
      | Data bs # rest \<Rightarrow> Some (Inr (take bufsize bs, sock\<lparr>replies := rest\<rparr>)))"

section \<open>proxy.py: send_tcp and send_udp\<close>

text \<open>
  The loop of \<open>send_tcp\<close>:
  \<^verbatim>\<open>while len(response) - 2 < length: response += sock.recv(8192)\<close>.
  It may run for ever, so it is a partial function: \<open>None\<close> is "does not return".
\<close>

partial_function (option) recv_loop :: "socket \<Rightarrow> byte list \<Rightarrow> nat \<Rightarrow> (exn + byte list) option" where
  "recv_loop sock response len =
     (if int (length response) - 2 < int len
      then (case recv sock 8192 of
              None \<Rightarrow> None
            | Some (Inl e) \<Rightarrow> Some (Inl e)
            | Some (Inr (chunk, sock2)) \<Rightarrow> recv_loop sock2 (response @ chunk) len)
      else Some (Inr response))"

declare recv_loop.simps [code]

text \<open>
  Both helpers give back what they wrote to the socket and how the call ended:
  \<open>Some (Inr response)\<close> for a return, \<open>Some (Inl e)\<close> for an exception, \<open>None\<close> when
  the call never returns. \<open>net host port\<close> is the endpoint reached at that address.
  The \<^verbatim>\<open>with\<close> block closes the socket on every way out; closing is not modelled.
\<close>

definition send_tcp ::
  "(string \<Rightarrow> int \<Rightarrow> endpoint) \<Rightarrow> byte list \<Rightarrow> string \<Rightarrow> int
     \<Rightarrow> byte list list \<times> (exn + byte list) option" where
  "send_tcp net data host prt =
     (case connect (socket_new (net host prt)) of
        Inl e \<Rightarrow> ([], Some (Inl e))
      | Inr sock \<Rightarrow>
          (case sendall sock data of
             Inl e \<Rightarrow> ([], Some (Inl e))
           | Inr sock \<Rightarrow>
               ([data],
                (case recv sock 8192 of
                   None \<Rightarrow> None
                 | Some (Inl e) \<Rightarrow> Some (Inl e)
                 | Some (Inr (response, sock)) \<Rightarrow>
                     (case struct_unpack_H (take 2 response) of
                        Inl e \<Rightarrow> Some (Inl e)
                      | Inr len \<Rightarrow> recv_loop sock response len)))))"

definition send_udp ::
  "(string \<Rightarrow> int \<Rightarrow> endpoint) \<Rightarrow> byte list \<Rightarrow> string \<Rightarrow> int
     \<Rightarrow> byte list list \<times> (exn + byte list) option" where
  "send_udp net data host prt =
     (case sendto (socket_new (net host prt)) data of
        Inl e \<Rightarrow> ([], Some (Inl e))
      | Inr sock \<Rightarrow>
          ([data],
           (case recvfrom sock 8192 of
              None \<Rightarrow> None
            | Some (Inl e) \<Rightarrow> Some (Inl e)
            | Some (Inr (response, sock)) \<Rightarrow> Some (Inr response))))"

section \<open>proxy.py: PassthroughDNSHandler.get_reply\<close>

text \<open>
  One call of \<open>get_reply\<close>: the lines given to the logger, the byte strings written
  to the upstream socket, and how the call ended (as for the helpers above).
\<close>

record exchange =
  logged :: "string list"
  forwarded :: "byte list list"
  returned :: "(exn + byte list) option"

definition get_reply ::
  "(byte list \<Rightarrow> DNSRecord option) \<Rightarrow> (DNSRecord \<Rightarrow> string) \<Rightarrow> (string \<Rightarrow> int \<Rightarrow> endpoint)
     \<Rightarrow> 't DNSHandler \<Rightarrow> byte list \<Rightarrow> exchange" where
  "get_reply parse str_of net self data =
     (let host = address (resolver (server self)); prt = port (resolver (server self)) in
      case DNSRecord_parse parse data of
        Inl e \<Rightarrow> \<lparr>logged = [], forwarded = [], returned = Some (Inl e)\<rparr>
      | Inr request \<Rightarrow>
          (let log1 = [''Request: '' @ str_of request];
               (wrote, got) =
                 (if protocol self = ''tcp''
                  then (case struct_pack_H (int (length data)) of
                          Inl e \<Rightarrow> ([], Some (Inl e))
                        | Inr prefix \<Rightarrow>
                            (case send_tcp net (prefix @ data) host prt of
                               (w, Some (Inr response)) \<Rightarrow> (w, Some (Inr (drop 2 response)))
                             | (w, r) \<Rightarrow> (w, r)))
                  else send_udp net data host prt)
           in case got of
                None \<Rightarrow> \<lparr>logged = log1, forwarded = wrote, returned = None\<rparr>
              | Some (Inl e) \<Rightarrow> \<lparr>logged = log1, forwarded = wrote, returned = Some (Inl e)\<rparr>
              | Some (Inr response) \<Rightarrow>
                  (case DNSRecord_parse parse response of
                     Inl e \<Rightarrow> \<lparr>logged = log1, forwarded = wrote, returned = Some (Inl e)\<rparr>
                   | Inr reply \<Rightarrow>
                       \<lparr>logged = log1 @ [''Reply: '' @ str_of reply], forwarded = wrote,
                        returned = Some (Inr response)\<rparr>)))"

section \<open>Concrete collaborators for running the definitions\<close>

text \<open>
  Stand-ins for the parameters, used where a statement is evaluated on concrete
  bytes. \<open>header_parse\<close> decodes the start of a DNS message: the id in bytes 0 and 1,
  the response code in the low four bits of byte 3, and keeps what follows the two
  flag bytes as the question bytes; fewer than four bytes do not decode. \<open>show_id\<close>
  prints a record's id. \<open>reach ep\<close> is the network where every address leads to
  \<open>ep\<close>; \<open>canned r\<close> is a \<open>send\<close> whose round trip ends as \<open>r\<close>; \<open>peer evs fin\<close> is
  an endpoint that accepts the connection and the request, then plays \<open>evs\<close>.
  \<open>TEST\<close> is the table of the doctest in \<^verbatim>\<open>bimap.py\<close>; \<open>RCODE\<close> stands in for the
  response-code table of \<^verbatim>\<open>dnslib/dns.py\<close>, with the codes 0 to 5 of RFC 1035.
  \<open>upstream\<close>, the two handlers and \<open>query7\<close> are a resolver for 8.8.8.8:53, a handler
  for each protocol, and a request with id 7.
\<close>

definition header_parse :: "byte list \<Rightarrow> DNSRecord option" where
  "header_parse packet =
     (case packet of
        i1 # i0 # f1 # f0 # rest \<Rightarrow>
          Some \<lparr>header = \<lparr>hdr_id = word_of_nat (256 * unat i1 + unat i0),
                          rcode = int (unat f0 mod 16)\<rparr>,
                q = rest, rr = []\<rparr>
      | _ \<Rightarrow> None)"

definition show_id :: "DNSRecord \<Rightarrow> string" where
  "show_id r = str_nat (unat (hdr_id (header r)))"

definition reach :: "endpoint \<Rightarrow> string \<Rightarrow> int \<Rightarrow> endpoint" where
  "reach ep host prt = ep"

definition canned ::
  "exn + byte list \<Rightarrow> DNSRecord \<Rightarrow> string \<Rightarrow> int \<Rightarrow> bool \<Rightarrow> nat \<Rightarrow> exn + byte list" where
  "canned r request host prt tcp t = r"

definition TEST :: Bimap where
  "TEST = Bimap_init ''TEST'' [(1, ''A''), (2, ''B''), (3, ''C'')] KeyError"

definition RCODE :: Bimap where
  "RCODE = Bimap_init ''RCODE''
     [(0, ''NOERROR''), (1, ''FORMERR''), (2, ''SERVFAIL''), (3, ''NXDOMAIN''),
      (4, ''NOTIMP''), (5, ''REFUSED'')] DNSError"

definition peer :: "recv_ev list \<Rightarrow> quiet \<Rightarrow> endpoint" where
  "peer evs fin = \<lparr>refuses = None, rejects = None, replies = evs, ending = fin\<rparr>"

definition upstream :: "nat ProxyResolver" where
  "upstream = \<lparr>address = ''8.8.8.8'', port = 53, timeout = 5\<rparr>"

definition udp_handler :: "nat DNSHandler" where
  "udp_handler = \<lparr>protocol = ''udp'', server = \<lparr>resolver = upstream\<rparr>\<rparr>"

definition tcp_handler :: "nat DNSHandler" where
  "tcp_handler = \<lparr>protocol = ''tcp'', server = \<lparr>resolver = upstream\<rparr>\<rparr>"

definition query7 :: DNSRecord where
  "query7 = \<lparr>header = \<lparr>hdr_id = 7, rcode = 0\<rparr>, q = [1, 97, 0, 0, 1, 0, 1], rr = []\<rparr>"

section \<open>Facts about the table\<close>






text \<open>The doctest of \<^verbatim>\<open>bimap.py\<close>.\<close>

lemma TEST_doctest:
  "Bimap_getitem TEST 1 = Inr ''A''"
  "Bimap_getattr TEST ''A'' = Inr 1"
  "Bimap_getattr TEST ''X'' = Inl (KeyError ''TEST: Invalid reverse lookup: [X]'')"
  "Bimap_getitem TEST 99 = Inl (KeyError ''TEST: Invalid forward lookup: [99]'')"
  "Bimap_get TEST 99 None = ''99''"
  by code_simp+

lemma rcode_nxdomain: "Bimap_getattr RCODE ''NXDOMAIN'' = Inr 3"
  by code_simp



section \<open>Facts about the resolver\<close>

text \<open>The three ways the upstream round trip of \<open>resolve\<close> can end.\<close>

lemma resolve_on_timeout:
  assumes "Bimap_getattr codes ''NXDOMAIN'' = Inr code"
    and "send request (address self) (port self) (protocol handler \<noteq> ''udp'') (timeout self)
           = Inl socket_timeout"
  shows "resolve codes send parse reply_of self request handler =
           Inr ((reply_of request)\<lparr>header := (header (reply_of request))\<lparr>rcode := code\<rparr>\<rparr>)"
  using assms
  by (cases "protocol handler = ''udp''") (simp_all add: resolve_def and_then_def)

lemma resolve_on_failure:
  assumes "send request (address self) (port self) (protocol handler \<noteq> ''udp'') (timeout self)
             = Inl e"
    and "e \<noteq> socket_timeout"
  shows "resolve codes send parse reply_of self request handler = Inl e"
  using assms
  by (cases "protocol handler = ''udp''") (simp_all add: resolve_def and_then_def)

lemma resolve_on_answer:
  assumes "send request (address self) (port self) (protocol handler \<noteq> ''udp'') (timeout self)
             = Inr packet"
  shows "resolve codes send parse reply_of self request handler = DNSRecord_parse parse packet"
  using assms
  by (cases "protocol handler = ''udp''"; cases "parse packet")
     (simp_all add: resolve_def and_then_def DNSRecord_parse_def)

text \<open>
  C1, as the code has it. The reply \<open>resolve\<close> synthesizes after a timeout carries the
  request's transaction id: it is \<^verbatim>\<open>request.reply()\<close>, which keeps the id, with only the
  response code set. A reply parsed from the upstream's bytes is returned as parsed:
  it carries the id those bytes carry, which the resolver neither checks nor rewrites.
\<close>

theorem resolve_reply_id:
  assumes "Bimap_getattr codes ''NXDOMAIN'' = Inr code"
  shows "(send request (address self) (port self) (protocol handler \<noteq> ''udp'') (timeout self)
            = Inl socket_timeout
          \<and> hdr_id (header (reply_of request)) = hdr_id (header request) \<longrightarrow>
          (\<exists>reply. resolve codes send parse reply_of self request handler = Inr reply
                 \<and> hdr_id (header reply) = hdr_id (header request)))
       \<and> (send request (address self) (port self) (protocol handler \<noteq> ''udp'') (timeout self)
            = Inr packet \<and> parse packet = Some answer \<longrightarrow>
          (\<exists>reply. resolve codes send parse reply_of self request handler = Inr reply
                 \<and> hdr_id (header reply) = hdr_id (header answer)))"
proof (intro conjI impI)
  assume "send request (address self) (port self) (protocol handler \<noteq> ''udp'') (timeout self)
            = Inl socket_timeout
          \<and> hdr_id (header (reply_of request)) = hdr_id (header request)"
  with assms show "\<exists>reply. resolve codes send parse reply_of self request handler = Inr reply
                     \<and> hdr_id (header reply) = hdr_id (header request)"
    by (simp add: resolve_on_timeout)
next
  assume "send request (address self) (port self) (protocol handler \<noteq> ''udp'') (timeout self)
            = Inr packet \<and> parse packet = Some answer"
  then show "\<exists>reply. resolve codes send parse reply_of self request handler = Inr reply
                \<and> hdr_id (header reply) = hdr_id (header answer)"
    by (simp add: resolve_on_answer DNSRecord_parse_def)
qed

theorem resolve_reply_id_witness:
  "Bimap_getattr RCODE ''NXDOMAIN'' = Inr 3
   \<and> canned (Inl socket_timeout) query7 (address upstream) (port upstream)
        (protocol udp_handler \<noteq> ''udp'') (timeout upstream) = Inl socket_timeout
   \<and> hdr_id (header (DNSRecord_reply query7)) = hdr_id (header query7)
   \<and> (\<exists>reply. resolve RCODE (canned (Inl socket_timeout)) header_parse DNSRecord_reply
                   upstream query7 udp_handler = Inr reply
             \<and> hdr_id (header reply) = hdr_id (header query7))
   \<and> canned (Inr [0, 7, 129, 128, 5]) query7 (address upstream) (port upstream)
        (protocol tcp_handler \<noteq> ''udp'') (timeout upstream) = Inr [0, 7, 129, 128, 5]
   \<and> header_parse [0, 7, 129, 128, 5] = Some \<lparr>header = \<lparr>hdr_id = 7, rcode = 0\<rparr>, q = [5], rr = []\<rparr>
   \<and> (\<exists>reply. resolve RCODE (canned (Inr [0, 7, 129, 128, 5])) header_parse DNSRecord_reply
                   upstream query7 tcp_handler = Inr reply
             \<and> hdr_id (header reply) = 7)"
proof -
  have parsed: "header_parse [0, 7, 129, 128, 5] =
                  Some \<lparr>header = \<lparr>hdr_id = 7, rcode = 0\<rparr>, q = [5], rr = []\<rparr>"
    by code_simp
  show ?thesis
    using resolve_reply_id [OF rcode_nxdomain,
            where send = "canned (Inl socket_timeout)" and request = query7 and self = upstream
              and handler = udp_handler and parse = header_parse and reply_of = DNSRecord_reply]
          resolve_reply_id [OF rcode_nxdomain,
            where send = "canned (Inr [0, 7, 129, 128, 5])" and request = query7
              and self = upstream and handler = tcp_handler and parse = header_parse
              and reply_of = DNSRecord_reply and packet = "[0, 7, 129, 128, 5]"
              and answer = "\<lparr>header = \<lparr>hdr_id = 7, rcode = 0\<rparr>, q = [5], rr = []\<rparr>"]
    by (simp add: canned_def rcode_nxdomain parsed DNSRecord_reply_def)
qed

text \<open>
  C1 as stated fails: the request has id 7, the upstream answers with a packet whose
  id is 9, and \<open>resolve\<close> returns the reply with id 9.
\<close>

theorem resolve_reply_id_counterexample:
  "resolve RCODE (canned (Inr [0, 9, 129, 128])) header_parse DNSRecord_reply upstream query7
      udp_handler =
     Inr \<lparr>header = \<lparr>hdr_id = 9, rcode = 0\<rparr>, q = [], rr = []\<rparr>
   \<and> hdr_id (header query7) = 7
   \<and> (9 :: 16 word) \<noteq> 7"
  by code_simp

text \<open>
  C2. \<open>resolve\<close> returns the reply synthesized from the request (\<^verbatim>\<open>request.reply()\<close>
  with the response code set to \<^verbatim>\<open>NXDOMAIN\<close>) when the upstream round trip raises a
  timeout, and only then: any other exception of the round trip leaves \<open>resolve\<close> as
  it is, and when the upstream answers the result is that of parsing the answer.
\<close>

theorem resolve_nxdomain_iff_timeout:
  assumes "Bimap_getattr codes ''NXDOMAIN'' = Inr code"
  shows "(send request (address self) (port self) (protocol handler \<noteq> ''udp'') (timeout self)
            = Inl socket_timeout \<longrightarrow>
          resolve codes send parse reply_of self request handler =
            Inr ((reply_of request)\<lparr>header := (header (reply_of request))\<lparr>rcode := code\<rparr>\<rparr>))
       \<and> (send request (address self) (port self) (protocol handler \<noteq> ''udp'') (timeout self)
            = Inl e \<and> e \<noteq> socket_timeout \<longrightarrow>
          resolve codes send parse reply_of self request handler = Inl e)
       \<and> (send request (address self) (port self) (protocol handler \<noteq> ''udp'') (timeout self)
            = Inr packet \<longrightarrow>
          resolve codes send parse reply_of self request handler = DNSRecord_parse parse packet)"
  using assms by (simp add: resolve_on_timeout resolve_on_failure resolve_on_answer)

theorem resolve_nxdomain_iff_timeout_witness:
  "Bimap_getattr RCODE ''NXDOMAIN'' = Inr 3
   \<and> resolve RCODE (canned (Inl socket_timeout)) header_parse DNSRecord_reply upstream query7
         tcp_handler =
       Inr \<lparr>header = \<lparr>hdr_id = 7, rcode = 3\<rparr>, q = [1, 97, 0, 0, 1, 0, 1], rr = []\<rparr>
   \<and> OSError ''Connection refused'' \<noteq> socket_timeout
   \<and> resolve RCODE (canned (Inl (OSError ''Connection refused''))) header_parse DNSRecord_reply
         upstream query7 tcp_handler = Inl (OSError ''Connection refused'')
   \<and> resolve RCODE (canned (Inr [0, 7, 129, 131])) header_parse DNSRecord_reply upstream query7
         udp_handler =
       DNSRecord_parse header_parse [0, 7, 129, 131]"
  using resolve_nxdomain_iff_timeout [OF rcode_nxdomain,
          where send = "canned (Inl socket_timeout)" and request = query7 and self = upstream
            and handler = tcp_handler and parse = header_parse and reply_of = DNSRecord_reply]
        resolve_nxdomain_iff_timeout [OF rcode_nxdomain,
          where send = "canned (Inl (OSError ''Connection refused''))" and request = query7
            and self = upstream and handler = tcp_handler and parse = header_parse
            and reply_of = DNSRecord_reply and e = "OSError ''Connection refused''"]
        resolve_nxdomain_iff_timeout [OF rcode_nxdomain,
          where send = "canned (Inr [0, 7, 129, 131])" and request = query7
            and self = upstream and handler = udp_handler and parse = header_parse
            and reply_of = DNSRecord_reply and packet = "[0, 7, 129, 131]"]
  by (simp add: canned_def rcode_nxdomain query7_def DNSRecord_reply_def)

text \<open>
  C8. When the upstream answers, the record \<open>resolve\<close> returns is the parse of the
  bytes the upstream returned, with no field changed.
\<close>

theorem resolve_returns_parsed_answer:
  assumes "send request (address self) (port self) (protocol handler \<noteq> ''udp'') (timeout self)
             = Inr packet"
    and "parse packet = Some answer"
  shows "resolve codes send parse reply_of self request handler = Inr answer"
  using assms by (simp add: resolve_on_answer DNSRecord_parse_def)

theorem resolve_returns_parsed_answer_witness:
  "canned (Inr [0, 7, 129, 128, 5]) query7 (address upstream) (port upstream)
        (protocol udp_handler \<noteq> ''udp'') (timeout upstream) = Inr [0, 7, 129, 128, 5]
   \<and> header_parse [0, 7, 129, 128, 5] = Some \<lparr>header = \<lparr>hdr_id = 7, rcode = 0\<rparr>, q = [5], rr = []\<rparr>
   \<and> resolve RCODE (canned (Inr [0, 7, 129, 128, 5])) header_parse DNSRecord_reply upstream
         query7 udp_handler =
       Inr \<lparr>header = \<lparr>hdr_id = 7, rcode = 0\<rparr>, q = [5], rr = []\<rparr>"
proof -
  have sent: "canned (Inr [0, 7, 129, 128, 5]) query7 (address upstream) (port upstream)
                (protocol udp_handler \<noteq> ''udp'') (timeout upstream) = Inr [0, 7, 129, 128, 5]"
    by (simp add: canned_def)
  have parsed: "header_parse [0, 7, 129, 128, 5] =
                  Some \<lparr>header = \<lparr>hdr_id = 7, rcode = 0\<rparr>, q = [5], rr = []\<rparr>"
    by code_simp
  show ?thesis
    using sent parsed
      resolve_returns_parsed_answer
        [where send = "canned (Inr [0, 7, 129, 128, 5])" and request = query7 and self = upstream
           and handler = udp_handler and parse = header_parse and reply_of = DNSRecord_reply
           and packet = "[0, 7, 129, 128, 5]"
           and answer = "\<lparr>header = \<lparr>hdr_id = 7, rcode = 0\<rparr>, q = [5], rr = []\<rparr>"
           and codes = RCODE]
    by simp
qed

section \<open>Facts about the sockets and the helpers\<close>

text \<open>Packing a length and unpacking the two bytes gives the length back.\<close>

lemma struct_pack_unpack:
  assumes "struct_pack_H n = Inr pfx"
  shows "struct_unpack_H pfx = Inr (nat n)"
proof -
  from assms have rng: "0 \<le> n" "n \<le> 65535"
    and pfx: "pfx = [word_of_int (n div 256), word_of_int (n mod 256)]"
    by (auto simp: struct_pack_H_def split: if_splits)
  have hi: "unat (word_of_int (n div 256) :: byte) = nat (n div 256)"
    using rng by (simp add: unat_eq_nat_uint uint_word_of_int take_bit_int_eq_self)
  have lo: "unat (word_of_int (n mod 256) :: byte) = nat (n mod 256)"
    by (simp add: unat_eq_nat_uint uint_word_of_int take_bit_int_eq_self)
  have "nat n = nat (256 * (n div 256) + n mod 256)" by simp
  also have "\<dots> = nat (256 * (n div 256)) + nat (n mod 256)"
    using rng by (intro nat_add_distrib) (simp_all add: pos_imp_zdiv_nonneg_iff)
  also have "nat (256 * (n div 256)) = 256 * nat (n div 256)"
    by (simp add: nat_mult_distrib)
  finally have "256 * nat (n div 256) + nat (n mod 256) = nat n" by simp
  then show ?thesis
    by (simp add: pfx struct_unpack_H_def hi lo)
qed

lemma recv_closed:
  assumes "replies sock = []" and "ending sock = Closed"
  shows "recv sock n = Some (Inr ([], sock))"
  using assms by (simp add: recv_def starved_def)

lemma recv_loop_stuck:
  assumes "replies sock = []" and "ending sock = Closed"
    and "int (length response) - 2 < int len"
  shows "recv_loop sock response len = None"
proof (rule ccontr)
  assume "recv_loop sock response len \<noteq> None"
  then obtain y where y: "recv_loop sock response len = Some y" by auto
  have "\<not> (replies sock = [] \<and> ending sock = Closed \<and> int (length response) - 2 < int len)"
    using y
  proof (induction rule: recv_loop.raw_induct [rotated 1, consumes 1, case_names step])
    case (step loop sock response len y)
    show ?case
    proof
      assume stuck: "replies sock = [] \<and> ending sock = Closed \<and> int (length response) - 2 < int len"
      then have "recv sock 8192 = Some (Inr ([], sock))"
        by (simp add: recv_closed)
      with step(2) stuck have "loop sock response len = Some y"
        by simp
      then have "\<not> (replies sock = [] \<and> ending sock = Closed \<and> int (length response) - 2 < int len)"
        by (rule step(1))
      with stuck show False by blast
    qed
  qed
  with assms show False by blast
qed

lemma send_udp_wrote:
  "fst (send_udp net data host prt) = [] \<or> fst (send_udp net data host prt) = [data]"
  by (simp add: send_udp_def sendto_def split: option.split)

lemma send_udp_returned:
  assumes "snd (send_udp net data host prt) = Some (Inr out)"
  shows "fst (send_udp net data host prt) = [data]"
  using assms by (simp add: send_udp_def sendto_def split: option.splits)

lemma send_tcp_wrote:
  "fst (send_tcp net data host prt) = [] \<or> fst (send_tcp net data host prt) = [data]"
  by (simp add: send_tcp_def connect_def sendall_def split: option.split)

lemma send_tcp_returned:
  assumes "snd (send_tcp net data host prt) = Some (Inr out)"
  shows "fst (send_tcp net data host prt) = [data]"
  using assms by (simp add: send_tcp_def connect_def sendall_def split: option.splits)

lemma send_tcp_accepted:
  assumes "refuses (net host prt) = None" and "rejects (net host prt) = None"
  shows "fst (send_tcp net data host prt) = [data]"
  using assms by (simp add: send_tcp_def connect_def sendall_def socket_new_def)

lemma send_udp_silent:
  assumes "rejects (net host prt) = None" and "replies (net host prt) = []"
    and "ending (net host prt) = Silent"
  shows "send_udp net data host prt = ([data], None)"
  using assms by (simp add: send_udp_def sendto_def socket_new_def recvfrom_def starved_def)

lemma send_udp_datagram:
  assumes "rejects (net host prt) = None" and "replies (net host prt) = Data bs # rest"
  shows "send_udp net data host prt = ([data], Some (Inr (take 8192 bs)))"
  using assms by (simp add: send_udp_def sendto_def socket_new_def recvfrom_def)

text \<open>With a timeout set, a receive call on a silent peer raises; without, it blocks.\<close>

lemma recvfrom_silent:
  assumes "replies sock = []" and "ending sock = Silent"
  shows "recvfrom sock n = (case gettimeout sock of None \<Rightarrow> None | Some t \<Rightarrow> Some (Inl socket_timeout))"
  using assms by (simp add: recvfrom_def starved_def)

text \<open>\<open>send_udp\<close> looks at one receive event at most: what follows it changes nothing.\<close>

lemma send_udp_one_receive:
  "send_udp (reach (peer (ev # rest) fin)) data host prt =
   send_udp (reach (peer [ev] fin2)) data host prt"
  by (cases ev)
     (simp_all add: send_udp_def sendto_def socket_new_def recvfrom_def reach_def peer_def)

lemma recv_data:
  assumes "replies sock = Data c # rest" and "length c \<le> n"
  shows "recv sock n = Some (Inr (c, sock\<lparr>replies := rest\<rparr>))"
  using assms by (simp add: recv_def)

lemma recv_loop_done:
  assumes "int len \<le> int (length response) - 2"
  shows "recv_loop sock response len = Some (Inr response)"
  using assms by (subst recv_loop.simps) simp

lemma recv_loop_more:
  assumes "int (length response) - 2 < int len"
    and "recv sock 8192 = Some (Inr (c, sock2))"
  shows "recv_loop sock response len = recv_loop sock2 (response @ c) len"
  using assms by (subst recv_loop.simps) simp

lemma recv_loop_collects:
  assumes "replies sock = map Data cs @ rest"
    and "\<forall>c \<in> set cs. length c \<le> 8192"
    and "cs \<noteq> [] \<Longrightarrow> int (length response + length (concat (butlast cs))) - 2 < int len"
    and "int len \<le> int (length response + length (concat cs)) - 2"
  shows "recv_loop sock response len = Some (Inr (response @ concat cs))"
  using assms
proof (induction cs arbitrary: sock response)
  case Nil
  then show ?case by (simp add: recv_loop_done)
next
  case (Cons c cs)
  from Cons.prems(3) have short: "int (length response) - 2 < int len" by simp
  from Cons.prems(1,2) have "recv sock 8192 = Some (Inr (c, sock\<lparr>replies := map Data cs @ rest\<rparr>))"
    by (simp add: recv_data)
  with short have "recv_loop sock response len =
                   recv_loop (sock\<lparr>replies := map Data cs @ rest\<rparr>) (response @ c) len"
    by (rule recv_loop_more)
  also have "\<dots> = Some (Inr ((response @ c) @ concat cs))"
  proof (rule Cons.IH)
    show "replies (sock\<lparr>replies := map Data cs @ rest\<rparr>) = map Data cs @ rest" by simp
    show "\<forall>c \<in> set cs. length c \<le> 8192" using Cons.prems(2) by simp
    show "int (length (response @ c) + length (concat (butlast cs))) - 2 < int len" if "cs \<noteq> []"
      using Cons.prems(3) that by simp
    show "int len \<le> int (length (response @ c) + length (concat cs)) - 2"
      using Cons.prems(4) by simp
  qed
  finally show ?case by simp
qed

lemma send_tcp_reassembles:
  assumes "2 \<le> length c" and "\<forall>x \<in> set (c # cs). length x \<le> 8192"
    and "struct_unpack_H (take 2 c) = Inr len"
    and "cs \<noteq> [] \<Longrightarrow> int (length (concat (c # butlast cs))) - 2 < int len"
    and "int len \<le> int (length (concat (c # cs))) - 2"
  shows "send_tcp (reach (peer (map Data (c # cs) @ rest) fin)) data host prt =
           ([data], Some (Inr (concat (c # cs))))"
proof -
  let ?sock = "socket_new (peer (map Data (c # cs) @ rest) fin)"
  have first: "recv ?sock 8192 = Some (Inr (c, ?sock\<lparr>replies := map Data cs @ rest\<rparr>))"
    using assms(2) by (simp add: recv_data socket_new_def peer_def)
  have "recv_loop (?sock\<lparr>replies := map Data cs @ rest\<rparr>) c len = Some (Inr (c @ concat cs))"
  proof (rule recv_loop_collects)
    show "replies (?sock\<lparr>replies := map Data cs @ rest\<rparr>) = map Data cs @ rest" by simp
    show "\<forall>c \<in> set cs. length c \<le> 8192" using assms(2) by simp
    show "int (length c + length (concat (butlast cs))) - 2 < int len" if "cs \<noteq> []"
      using assms(4) that by simp
    show "int len \<le> int (length c + length (concat cs)) - 2" using assms(5) by simp
  qed
  with first assms(3) show ?thesis
    by (simp add: send_tcp_def reach_def connect_def sendall_def socket_new_def peer_def)
qed

lemma send_tcp_early_close:
  assumes "length c \<le> 8192" and "struct_unpack_H (take 2 c) = Inr len"
    and "int (length c) - 2 < int len"
  shows "send_tcp (reach (peer [Data c] Closed)) data host prt = ([data], None)"
proof -
  let ?sock = "socket_new (peer [Data c] Closed)"
  have first: "recv ?sock 8192 = Some (Inr (c, ?sock\<lparr>replies := []\<rparr>))"
    using assms(1) by (simp add: recv_data socket_new_def peer_def)
  have "recv_loop (?sock\<lparr>replies := []\<rparr>) c len = None"
    using assms(3) by (intro recv_loop_stuck) (simp_all add: socket_new_def peer_def)
  with first assms(2) show ?thesis
    by (simp add: send_tcp_def reach_def connect_def sendall_def socket_new_def peer_def)
qed

text \<open>
  Scenario 3 of the spec: a 602-byte response read as 2, 300 and 300 bytes comes back
  whole, prefix included.
\<close>

lemma send_tcp_scenario_3:
  "send_tcp (reach (peer [Data [2, 88], Data (replicate 300 x), Data (replicate 300 y)] Closed))
      data host prt =
     ([data], Some (Inr ([2, 88] @ replicate 300 x @ replicate 300 y)))"
  using send_tcp_reassembles [where c = "[2, 88]" and cs = "[replicate 300 x, replicate 300 y]"
          and len = 600 and rest = "[]" and fin = Closed and data = data and host = host and prt = prt]
  by (simp add: struct_unpack_H_def)

section \<open>Facts about the passthrough handler\<close>

lemma get_reply_unparsed:
  assumes "parse data = None"
  shows "get_reply parse str_of net self data =
           \<lparr>logged = [], forwarded = [], returned = Some (Inl (DNSError ''Error unpacking DNSRecord''))\<rparr>"
  using assms by (simp add: get_reply_def DNSRecord_parse_def)

lemma get_reply_udp:
  assumes "parse data = Some request" and "protocol self \<noteq> ''tcp''"
    and "send_udp net data (address (resolver (server self))) (port (resolver (server self))) = (w, r)"
  shows "get_reply parse str_of net self data =
           (case r of
              None \<Rightarrow> \<lparr>logged = [''Request: '' @ str_of request], forwarded = w, returned = None\<rparr>
            | Some (Inl e) \<Rightarrow>
                \<lparr>logged = [''Request: '' @ str_of request], forwarded = w, returned = Some (Inl e)\<rparr>
            | Some (Inr response) \<Rightarrow>
                (case parse response of
                   None \<Rightarrow> \<lparr>logged = [''Request: '' @ str_of request], forwarded = w,
                            returned = Some (Inl (DNSError ''Error unpacking DNSRecord''))\<rparr>
                 | Some reply \<Rightarrow>
                     \<lparr>logged = [''Request: '' @ str_of request, ''Reply: '' @ str_of reply],
                      forwarded = w, returned = Some (Inr response)\<rparr>))"
  using assms
  by (simp add: get_reply_def DNSRecord_parse_def Let_def split: option.split sum.split)

lemma get_reply_tcp:
  assumes "parse data = Some request" and "protocol self = ''tcp''"
    and "struct_pack_H (int (length data)) = Inr pfx"
    and "send_tcp net (pfx @ data) (address (resolver (server self))) (port (resolver (server self)))
           = (w, r)"
  shows "get_reply parse str_of net self data =
           (case r of
              None \<Rightarrow> \<lparr>logged = [''Request: '' @ str_of request], forwarded = w, returned = None\<rparr>
            | Some (Inl e) \<Rightarrow>
                \<lparr>logged = [''Request: '' @ str_of request], forwarded = w, returned = Some (Inl e)\<rparr>
            | Some (Inr response) \<Rightarrow>
                (case parse (drop 2 response) of
                   None \<Rightarrow> \<lparr>logged = [''Request: '' @ str_of request], forwarded = w,
                            returned = Some (Inl (DNSError ''Error unpacking DNSRecord''))\<rparr>
                 | Some reply \<Rightarrow>
                     \<lparr>logged = [''Request: '' @ str_of request, ''Reply: '' @ str_of reply],
                      forwarded = w, returned = Some (Inr (drop 2 response))\<rparr>))"
  using assms
  by (simp add: get_reply_def DNSRecord_parse_def Let_def split: option.split sum.split)

lemma get_reply_tcp_oversize:
  assumes "parse data = Some request" and "protocol self = ''tcp''"
    and "struct_pack_H (int (length data)) = Inl e"
  shows "get_reply parse str_of net self data =
           \<lparr>logged = [''Request: '' @ str_of request], forwarded = [], returned = Some (Inl e)\<rparr>"
  using assms
  by (simp add: get_reply_def DNSRecord_parse_def Let_def)

lemma handler_protocols:
  "protocol udp_handler \<noteq> ''tcp''" "protocol tcp_handler = ''tcp''"
  "address (resolver (server tcp_handler)) = ''8.8.8.8''" "port (resolver (server tcp_handler)) = 53"
  by (simp_all add: udp_handler_def tcp_handler_def upstream_def)

lemma relay_udp_run:
  "get_reply header_parse show_id (reach (peer [Data [0, 7, 129, 128, 5]] Silent)) udp_handler
      [0, 7, 1, 0, 9] =
     \<lparr>logged = [''Request: 7'', ''Reply: 7''], forwarded = [[0, 7, 1, 0, 9]],
      returned = Some (Inr [0, 7, 129, 128, 5])\<rparr>"
  by code_simp

lemma relay_tcp_run:
  "get_reply header_parse show_id (reach (peer [Data [0, 5, 0, 7], Data [129, 128, 5]] Closed))
      tcp_handler [0, 7, 1, 0, 9] =
     \<lparr>logged = [''Request: 7'', ''Reply: 7''], forwarded = [[0, 5, 0, 7, 1, 0, 9]],
      returned = Some (Inr [0, 7, 129, 128, 5])\<rparr>"
  by code_simp

lemma pack_5: "struct_pack_H (int (length [0, 7, 1, 0, 9 :: byte])) = Inr [0, 5]"
  by code_simp

lemma abort_udp_run:
  "header_parse [0, 7, 1, 0, 9] = Some \<lparr>header = \<lparr>hdr_id = 7, rcode = 0\<rparr>, q = [9], rr = []\<rparr>"
  "snd (send_udp (reach (peer [Data [9, 9]] Silent)) [0, 7, 1, 0, 9]
         (address (resolver (server udp_handler))) (port (resolver (server udp_handler))))
     = Some (Inr [9, 9])"
  "header_parse [9, 9] = None"
  "header_parse [1, 2, 3] = None"
  "show_id \<lparr>header = \<lparr>hdr_id = 7, rcode = 0\<rparr>, q = [9], rr = []\<rparr> = ''7''"
  by code_simp+

lemma abort_tcp_run:
  "snd (send_tcp (reach (peer [Data [0, 2, 9, 9]] Closed)) ([0, 5] @ [0, 7, 1, 0, 9])
         (address (resolver (server tcp_handler))) (port (resolver (server tcp_handler))))
     = Some (Inr [0, 2, 9, 9])"
  by code_simp

section \<open>The claims about the passthrough handler and the helpers\<close>

text \<open>
  C3. In passthrough mode the handler returns the bytes the upstream returned and
  forwards the client's bytes, never a re-encoded message. Over UDP: whatever is
  written upstream is \<open>data\<close> itself, and \<open>get_reply\<close> returns \<open>out\<close> exactly when
  \<open>send_udp\<close> returned \<open>out\<close> (and the request and \<open>out\<close> decode for the log). Over TCP:
  whatever is written upstream is \<open>data\<close> behind the two-byte big-endian prefix of its
  length, and \<open>get_reply\<close> returns \<open>out\<close> exactly when \<open>send_tcp\<close> returned a response
  of which \<open>out\<close> is all but the first two bytes.
\<close>

theorem passthrough_relays_raw_bytes:
  assumes X: "X = get_reply parse str_of net self data"
    and host: "host = address (resolver (server self))"
    and prt: "prt = port (resolver (server self))"
  shows "(protocol self \<noteq> ''tcp'' \<longrightarrow>
            (forwarded X = [] \<or> forwarded X = [data])
          \<and> (returned X = Some (Inr out) \<longleftrightarrow>
               parse data \<noteq> None \<and> snd (send_udp net data host prt) = Some (Inr out)
               \<and> parse out \<noteq> None)
          \<and> (returned X = Some (Inr out) \<longrightarrow> forwarded X = [data]))
       \<and> (protocol self = ''tcp'' \<and> struct_pack_H (int (length data)) = Inr pfx \<longrightarrow>
            struct_unpack_H pfx = Inr (length data)
          \<and> (forwarded X = [] \<or> forwarded X = [pfx @ data])
          \<and> (returned X = Some (Inr out) \<longleftrightarrow>
               parse data \<noteq> None
               \<and> (\<exists>response. snd (send_tcp net (pfx @ data) host prt) = Some (Inr response)
                     \<and> out = drop 2 response)
               \<and> parse out \<noteq> None)
          \<and> (returned X = Some (Inr out) \<longrightarrow> forwarded X = [pfx @ data]))"
proof (intro conjI impI)
  assume udp: "protocol self \<noteq> ''tcp''"
  obtain w r where sent: "send_udp net data host prt = (w, r)" by (cases "send_udp net data host prt")
  have w: "w = [] \<or> w = [data]"
    using send_udp_wrote [of net data host prt] by (simp add: sent)
  have wr: "w = [data]" if "r = Some (Inr z)" for z
    using send_udp_returned [of net data host prt z] that by (simp add: sent)
  show "forwarded X = [] \<or> forwarded X = [data]"
  proof (cases "parse data")
    case None
    then show ?thesis by (simp add: X get_reply_unparsed)
  next
    case (Some request)
    with udp sent w show ?thesis
      by (auto simp: X get_reply_udp host prt split: option.split sum.split)
  qed
  show "returned X = Some (Inr out) \<longleftrightarrow>
          parse data \<noteq> None \<and> snd (send_udp net data host prt) = Some (Inr out) \<and> parse out \<noteq> None"
  proof (cases "parse data")
    case None
    then show ?thesis by (simp add: X get_reply_unparsed)
  next
    case (Some request)
    with udp sent show ?thesis
      by (auto simp: X get_reply_udp host prt split: option.split sum.split)
  qed
  show "forwarded X = [data]" if "returned X = Some (Inr out)"
  proof (cases "parse data")
    case None
    with that show ?thesis by (simp add: X get_reply_unparsed)
  next
    case (Some request)
    with udp sent wr that show ?thesis
      by (auto simp: X get_reply_udp host prt split: option.splits sum.splits)
  qed
next
  assume "protocol self = ''tcp'' \<and> struct_pack_H (int (length data)) = Inr pfx"
  then have tcp: "protocol self = ''tcp''" and pfx: "struct_pack_H (int (length data)) = Inr pfx"
    by simp_all
  obtain w r where sent: "send_tcp net (pfx @ data) host prt = (w, r)"
    by (cases "send_tcp net (pfx @ data) host prt")
  have w: "w = [] \<or> w = [pfx @ data]"
    using send_tcp_wrote [of net "pfx @ data" host prt] by (simp add: sent)
  have wr: "w = [pfx @ data]" if "r = Some (Inr z)" for z
    using send_tcp_returned [of net "pfx @ data" host prt z] that by (simp add: sent)
  show "struct_unpack_H pfx = Inr (length data)"
    using struct_pack_unpack [OF pfx] by simp
  show "forwarded X = [] \<or> forwarded X = [pfx @ data]"
  proof (cases "parse data")
    case None
    then show ?thesis by (simp add: X get_reply_unparsed)
  next
    case (Some request)
    with tcp pfx sent w show ?thesis
      by (auto simp: X get_reply_tcp host prt split: option.split sum.split)
  qed
  show "returned X = Some (Inr out) \<longleftrightarrow>
          parse data \<noteq> None
          \<and> (\<exists>response. snd (send_tcp net (pfx @ data) host prt) = Some (Inr response)
                \<and> out = drop 2 response)
          \<and> parse out \<noteq> None"
  proof (cases "parse data")
    case None
    then show ?thesis by (simp add: X get_reply_unparsed)
  next
    case (Some request)
    with tcp pfx sent show ?thesis
      by (auto simp: X get_reply_tcp host prt split: option.split sum.split)
  qed
  show "forwarded X = [pfx @ data]" if "returned X = Some (Inr out)"
  proof (cases "parse data")
    case None
    with that show ?thesis by (simp add: X get_reply_unparsed)
  next
    case (Some request)
    with tcp pfx sent wr that show ?thesis
      by (auto simp: X get_reply_tcp host prt split: option.splits sum.splits)
  qed
qed

theorem passthrough_relays_raw_bytes_witness:
  "protocol udp_handler \<noteq> ''tcp''
   \<and> forwarded (get_reply header_parse show_id (reach (peer [Data [0, 7, 129, 128, 5]] Silent))
         udp_handler [0, 7, 1, 0, 9]) = [[0, 7, 1, 0, 9]]
   \<and> returned (get_reply header_parse show_id (reach (peer [Data [0, 7, 129, 128, 5]] Silent))
         udp_handler [0, 7, 1, 0, 9]) = Some (Inr [0, 7, 129, 128, 5])
   \<and> snd (send_udp (reach (peer [Data [0, 7, 129, 128, 5]] Silent)) [0, 7, 1, 0, 9]
         (address (resolver (server udp_handler))) (port (resolver (server udp_handler))))
       = Some (Inr [0, 7, 129, 128, 5])
   \<and> protocol tcp_handler = ''tcp''
   \<and> struct_pack_H (int (length [0, 7, 1, 0, 9 :: byte])) = Inr [0, 5]
   \<and> forwarded (get_reply header_parse show_id
         (reach (peer [Data [0, 5, 0, 7], Data [129, 128, 5]] Closed)) tcp_handler [0, 7, 1, 0, 9])
       = [[0, 5] @ [0, 7, 1, 0, 9]]
   \<and> returned (get_reply header_parse show_id
         (reach (peer [Data [0, 5, 0, 7], Data [129, 128, 5]] Closed)) tcp_handler [0, 7, 1, 0, 9])
       = Some (Inr [0, 7, 129, 128, 5])
   \<and> (\<exists>response. snd (send_tcp (reach (peer [Data [0, 5, 0, 7], Data [129, 128, 5]] Closed))
                         ([0, 5] @ [0, 7, 1, 0, 9])
                         (address (resolver (server tcp_handler)))
                         (port (resolver (server tcp_handler)))) = Some (Inr response)
                  \<and> [0, 7, 129, 128, 5] = drop 2 response)"
  using passthrough_relays_raw_bytes
          [OF refl refl refl, where parse = header_parse and str_of = show_id
             and net = "reach (peer [Data [0, 7, 129, 128, 5]] Silent)" and self = udp_handler
             and data = "[0, 7, 1, 0, 9]" and out = "[0, 7, 129, 128, 5]"]
        passthrough_relays_raw_bytes
          [OF refl refl refl, where parse = header_parse and str_of = show_id
             and net = "reach (peer [Data [0, 5, 0, 7], Data [129, 128, 5]] Closed)"
             and self = tcp_handler and data = "[0, 7, 1, 0, 9]" and out = "[0, 7, 129, 128, 5]"
             and pfx = "[0, 5]"]
        relay_udp_run relay_tcp_run pack_5 handler_protocols
  by simp

text \<open>
  C4. The upstream sends the prefix \<^verbatim>\<open>00 05\<close> and two of the five bytes it declares,
  then closes the connection. Every further \<^verbatim>\<open>recv\<close> returns \<^verbatim>\<open>b''\<close>, the loop
  condition stays true, and \<open>send_tcp\<close> never returns: it raises no error.
\<close>

theorem send_tcp_early_close_never_returns:
  "send_tcp (reach (peer [Data [0, 5, 97, 98]] Closed)) data host prt = ([data], None)"
  by (rule send_tcp_early_close [where len = 5]) (simp_all add: struct_unpack_H_def)

text \<open>
  C5, as the code has it. In passthrough mode a parse failure ends the request. When
  the client's bytes do not decode, \<open>get_reply\<close> raises before it logs or forwards
  anything. When the upstream's reply does not decode, the request has been logged
  and the raw bytes forwarded, and \<open>get_reply\<close> raises instead of returning the
  upstream's response.
\<close>

theorem passthrough_parse_failure_aborts:
  assumes X: "X = get_reply parse str_of net self data"
    and host: "host = address (resolver (server self))"
    and prt: "prt = port (resolver (server self))"
  shows "(parse data = None \<longrightarrow>
            X = \<lparr>logged = [], forwarded = [],
                 returned = Some (Inl (DNSError ''Error unpacking DNSRecord''))\<rparr>)
       \<and> (parse data = Some request \<and> protocol self \<noteq> ''tcp''
          \<and> snd (send_udp net data host prt) = Some (Inr out) \<and> parse out = None \<longrightarrow>
            X = \<lparr>logged = [''Request: '' @ str_of request], forwarded = [data],
                 returned = Some (Inl (DNSError ''Error unpacking DNSRecord''))\<rparr>)
       \<and> (parse data = Some request \<and> protocol self = ''tcp''
          \<and> struct_pack_H (int (length data)) = Inr pfx
          \<and> snd (send_tcp net (pfx @ data) host prt) = Some (Inr response)
          \<and> parse (drop 2 response) = None \<longrightarrow>
            X = \<lparr>logged = [''Request: '' @ str_of request], forwarded = [pfx @ data],
                 returned = Some (Inl (DNSError ''Error unpacking DNSRecord''))\<rparr>)"
proof (intro conjI impI)
  assume "parse data = None"
  then show "X = \<lparr>logged = [], forwarded = [],
                  returned = Some (Inl (DNSError ''Error unpacking DNSRecord''))\<rparr>"
    by (simp add: X get_reply_unparsed)
next
  assume a: "parse data = Some request \<and> protocol self \<noteq> ''tcp''
          \<and> snd (send_udp net data host prt) = Some (Inr out) \<and> parse out = None"
  then have "send_udp net data host prt = ([data], Some (Inr out))"
    using send_udp_returned [of net data host prt out]
    by (cases "send_udp net data host prt") simp
  with a show "X = \<lparr>logged = [''Request: '' @ str_of request], forwarded = [data],
                  returned = Some (Inl (DNSError ''Error unpacking DNSRecord''))\<rparr>"
    by (simp add: X get_reply_udp [where w = "[data]" and r = "Some (Inr out)"] host prt)
next
  assume a: "parse data = Some request \<and> protocol self = ''tcp''
          \<and> struct_pack_H (int (length data)) = Inr pfx
          \<and> snd (send_tcp net (pfx @ data) host prt) = Some (Inr response)
          \<and> parse (drop 2 response) = None"
  then have "send_tcp net (pfx @ data) host prt = ([pfx @ data], Some (Inr response))"
    using send_tcp_returned [of net "pfx @ data" host prt response]
    by (cases "send_tcp net (pfx @ data) host prt") simp
  with a show "X = \<lparr>logged = [''Request: '' @ str_of request], forwarded = [pfx @ data],
                  returned = Some (Inl (DNSError ''Error unpacking DNSRecord''))\<rparr>"
    by (simp add: X get_reply_tcp [where w = "[pfx @ data]" and r = "Some (Inr response)"] host prt)
qed

theorem passthrough_parse_failure_aborts_witness:
  "header_parse [1, 2, 3] = None
   \<and> get_reply header_parse show_id (reach (peer [Data [0, 7, 129, 128, 5]] Silent)) udp_handler
        [1, 2, 3] =
       \<lparr>logged = [], forwarded = [],
        returned = Some (Inl (DNSError ''Error unpacking DNSRecord''))\<rparr>
   \<and> header_parse [0, 7, 1, 0, 9] = Some \<lparr>header = \<lparr>hdr_id = 7, rcode = 0\<rparr>, q = [9], rr = []\<rparr>
   \<and> protocol udp_handler \<noteq> ''tcp''
   \<and> snd (send_udp (reach (peer [Data [9, 9]] Silent)) [0, 7, 1, 0, 9]
         (address (resolver (server udp_handler))) (port (resolver (server udp_handler))))
       = Some (Inr [9, 9])
   \<and> header_parse [9, 9] = None
   \<and> get_reply header_parse show_id (reach (peer [Data [9, 9]] Silent)) udp_handler
        [0, 7, 1, 0, 9] =
       \<lparr>logged = [''Request: 7''], forwarded = [[0, 7, 1, 0, 9]],
        returned = Some (Inl (DNSError ''Error unpacking DNSRecord''))\<rparr>
   \<and> protocol tcp_handler = ''tcp''
   \<and> struct_pack_H (int (length [0, 7, 1, 0, 9 :: byte])) = Inr [0, 5]
   \<and> snd (send_tcp (reach (peer [Data [0, 2, 9, 9]] Closed)) ([0, 5] @ [0, 7, 1, 0, 9])
         (address (resolver (server tcp_handler))) (port (resolver (server tcp_handler))))
       = Some (Inr [0, 2, 9, 9])
   \<and> get_reply header_parse show_id (reach (peer [Data [0, 2, 9, 9]] Closed)) tcp_handler
        [0, 7, 1, 0, 9] =
       \<lparr>logged = [''Request: 7''], forwarded = [[0, 5] @ [0, 7, 1, 0, 9]],
        returned = Some (Inl (DNSError ''Error unpacking DNSRecord''))\<rparr>"
  using passthrough_parse_failure_aborts
          [OF refl refl refl, where parse = header_parse and str_of = show_id
             and net = "reach (peer [Data [0, 7, 129, 128, 5]] Silent)" and self = udp_handler
             and data = "[1, 2, 3]"]
        passthrough_parse_failure_aborts
          [OF refl refl refl, where parse = header_parse and str_of = show_id
             and net = "reach (peer [Data [9, 9]] Silent)" and self = udp_handler
             and data = "[0, 7, 1, 0, 9]" and out = "[9, 9]"
             and request = "\<lparr>header = \<lparr>hdr_id = 7, rcode = 0\<rparr>, q = [9], rr = []\<rparr>"]
        passthrough_parse_failure_aborts
          [OF refl refl refl, where parse = header_parse and str_of = show_id
             and net = "reach (peer [Data [0, 2, 9, 9]] Closed)" and self = tcp_handler
             and data = "[0, 7, 1, 0, 9]" and pfx = "[0, 5]" and response = "[0, 2, 9, 9]"
             and request = "\<lparr>header = \<lparr>hdr_id = 7, rcode = 0\<rparr>, q = [9], rr = []\<rparr>"]
        abort_udp_run abort_tcp_run pack_5 handler_protocols(1,2)
  by simp

text \<open>
  C5 as stated fails. Three bytes that do not decode: nothing is forwarded and no
  response is returned. A reply of two bytes that do not decode: the request was
  forwarded, and the handler raises instead of returning the reply.
\<close>

theorem passthrough_parse_failure_counterexample:
  "header_parse [1, 2, 3] = None
   \<and> get_reply header_parse show_id (reach (peer [Data [0, 7, 129, 128, 5]] Silent)) udp_handler
        [1, 2, 3] =
       \<lparr>logged = [], forwarded = [],
        returned = Some (Inl (DNSError ''Error unpacking DNSRecord''))\<rparr>
   \<and> header_parse [9, 9] = None
   \<and> get_reply header_parse show_id (reach (peer [Data [9, 9]] Silent)) udp_handler
        [0, 7, 1, 0, 9] =
       \<lparr>logged = [''Request: 7''], forwarded = [[0, 7, 1, 0, 9]],
        returned = Some (Inl (DNSError ''Error unpacking DNSRecord''))\<rparr>"
  by code_simp

text \<open>
  C6, as the code has it. \<open>send_tcp\<close> writes the bytes it is given and nothing else.
  The two-byte big-endian length prefix is put in front by its caller \<open>get_reply\<close>, so
  that for a TCP request the bytes written upstream are the prefix of \<open>len(data)\<close>
  followed by \<open>data\<close>.
\<close>

theorem send_tcp_writes_its_argument:
  assumes "refuses (net host prt) = None" and "rejects (net host prt) = None"
  shows "fst (send_tcp net data host prt) = [data]
       \<and> (parse data = Some request \<and> protocol self = ''tcp''
          \<and> struct_pack_H (int (length data)) = Inr pfx
          \<and> host = address (resolver (server self)) \<and> prt = port (resolver (server self)) \<longrightarrow>
            struct_unpack_H pfx = Inr (length data)
          \<and> forwarded (get_reply parse str_of net self data) = [pfx @ data])"
proof (intro conjI impI)
  show "fst (send_tcp net data host prt) = [data]"
    using assms by (rule send_tcp_accepted)
next
  assume a: "parse data = Some request \<and> protocol self = ''tcp''
          \<and> struct_pack_H (int (length data)) = Inr pfx
          \<and> host = address (resolver (server self)) \<and> prt = port (resolver (server self))"
  then show "struct_unpack_H pfx = Inr (length data)"
    using struct_pack_unpack [of "int (length data)" pfx] by simp
  obtain w r where sent: "send_tcp net (pfx @ data) host prt = (w, r)"
    by (cases "send_tcp net (pfx @ data) host prt")
  have "w = [pfx @ data]"
    using assms send_tcp_accepted [where net = net and host = host and prt = prt and data = "pfx @ data"]
    by (simp add: sent)
  with a sent show "forwarded (get_reply parse str_of net self data) = [pfx @ data]"
    by (auto simp: get_reply_tcp split: option.split sum.split)
qed

theorem send_tcp_writes_its_argument_witness:
  "refuses (reach (peer [Data [0, 5, 0, 7], Data [129, 128, 5]] Closed) ''8.8.8.8'' 53) = None
   \<and> rejects (reach (peer [Data [0, 5, 0, 7], Data [129, 128, 5]] Closed) ''8.8.8.8'' 53) = None
   \<and> fst (send_tcp (reach (peer [Data [0, 5, 0, 7], Data [129, 128, 5]] Closed)) [0, 7, 1, 0, 9]
           ''8.8.8.8'' 53) = [[0, 7, 1, 0, 9]]
   \<and> header_parse [0, 7, 1, 0, 9] = Some \<lparr>header = \<lparr>hdr_id = 7, rcode = 0\<rparr>, q = [9], rr = []\<rparr>
   \<and> protocol tcp_handler = ''tcp''
   \<and> struct_pack_H (int (length [0, 7, 1, 0, 9 :: byte])) = Inr [0, 5]
   \<and> ''8.8.8.8'' = address (resolver (server tcp_handler))
   \<and> 53 = port (resolver (server tcp_handler))
   \<and> forwarded (get_reply header_parse show_id
         (reach (peer [Data [0, 5, 0, 7], Data [129, 128, 5]] Closed)) tcp_handler [0, 7, 1, 0, 9])
       = [[0, 5] @ [0, 7, 1, 0, 9]]"
proof -
  have acc: "refuses (reach (peer [Data [0, 5, 0, 7], Data [129, 128, 5]] Closed) ''8.8.8.8'' 53) = None"
    "rejects (reach (peer [Data [0, 5, 0, 7], Data [129, 128, 5]] Closed) ''8.8.8.8'' 53) = None"
    by (simp_all add: reach_def peer_def)
  show ?thesis
    using acc
      send_tcp_writes_its_argument
        [where net = "reach (peer [Data [0, 5, 0, 7], Data [129, 128, 5]] Closed)"
           and host = "''8.8.8.8''" and prt = 53
           and data = "[0, 7, 1, 0, 9]" and parse = header_parse and self = tcp_handler
           and pfx = "[0, 5]" and str_of = show_id
           and request = "\<lparr>header = \<lparr>hdr_id = 7, rcode = 0\<rparr>, q = [9], rr = []\<rparr>"]
      abort_udp_run(1) pack_5 handler_protocols
    by simp
qed

text \<open>
  C6 as stated fails: given the three bytes \<^verbatim>\<open>01 02 03\<close>, \<open>send_tcp\<close> writes those three
  bytes, not \<^verbatim>\<open>00 03 01 02 03\<close>.
\<close>

theorem send_tcp_prefix_counterexample:
  "send_tcp (reach (peer [Data [0, 1, 9]] Closed)) [1, 2, 3] ''8.8.8.8'' 53 =
     ([[1, 2, 3]], Some (Inr [0, 1, 9]))
   \<and> struct_pack_H (int (length [1, 2, 3 :: byte])) = Inr [0, 3]
   \<and> [[1, 2, 3 :: byte]] \<noteq> [[0, 3] @ [1, 2, 3]]"
  by code_simp

text \<open>
  C7. \<open>send_udp\<close> sets no timeout on its socket. When no datagram arrives its one
  \<^verbatim>\<open>recvfrom\<close> call blocks, and \<open>send_udp\<close> never returns: it raises no timeout.
\<close>

theorem send_udp_silent_upstream_never_returns:
  "send_udp (reach (peer [] Silent)) data host prt = ([data], None)"
  by (rule send_udp_silent) (simp_all add: reach_def peer_def)

text \<open>
  C9. The first \<^verbatim>\<open>recv\<close> returns one byte of the response, the next the rest.
  \<open>send_tcp\<close> unpacks the length from the one byte it has and raises \<^verbatim>\<open>struct.error\<close>;
  it does not go on reading.
\<close>

theorem send_tcp_short_first_read_fails:
  "send_tcp (reach (peer [Data [0], Data [2, 97, 98]] Closed)) data host prt =
     ([data], Some (Inl (struct_error ''unpack requires a buffer of 2 bytes'')))"
  by (simp add: send_tcp_def reach_def peer_def connect_def sendall_def socket_new_def recv_def
        struct_unpack_H_def)

end
